theory Spec2Isabelle
  imports Main
begin

section \<open>Data model of graphql/schemabuilder/pagination.go\<close>

text \<open>
  Go's \<open>int\<close> and \<open>int64\<close> are modelled as \<open>int\<close>: the pagination code only compares
  these numbers, converts between the two types (the identity on a 64-bit target) and
  adds one to a slice index, so no operation can leave the 64-bit range. A pointer
  (\<open>*int64\<close>, \<open>*string\<close>) is an \<open>option\<close>, \<open>nil\<close> being \<open>None\<close>. A slice is a list, the
  \<open>nil\<close> slice being \<open>[]\<close>; \<open>s[i:]\<close> is \<open>drop i s\<close> and \<open>s[:i]\<close> is \<open>take i s\<close>.
\<close>

record 'n Edge =
  Node :: 'n
  Cursor :: string

record PageInfo =
  HasNextPage :: bool
  EndCursor :: string
  HasPrevPage :: bool
  StartCursor :: string
  Pages :: "string list"

record 'n Connection =
  TotalCount :: int
  Edges :: "'n Edge list"
  PageInfo :: PageInfo

record PaginationArgs =
  First :: "int option"
  Last :: "int option"
  After :: "string option"
  Before :: "string option"

text \<open>\<open>ConnectionArgs\<close> has the four fields of \<open>PaginationArgs\<close> and the user's \<open>Args\<close>.\<close>

record 'u ConnectionArgs = PaginationArgs +
  Args :: "'u option"

text \<open>
  \<open>PaginationInfo\<close>: \<open>TotalCountFunc\<close> is a nullable function without arguments, modelled
  by the number it returns. Its two flags carry the prefix \<open>Info\<close>, since \<open>PageInfo\<close> has
  fields of the same names.
\<close>

record PaginationInfo =
  TotalCountFunc :: "int option"
  InfoHasNextPage :: bool
  InfoHasPrevPage :: bool

text \<open>
  Error values: \<open>graphql.NewClientError\<close>, \<open>graphql.NewSafeError\<close> and
  \<open>fmt.Errorf\<close>/\<open>errors.New\<close>. A Go panic is kept apart from a returned error.
\<close>

datatype error = ClientError string | SafeError string | Errorf string

datatype panic = Panic string

text \<open>The zero values \<open>PageInfo{}\<close> and \<open>Connection{}\<close>.\<close>

definition zeroPageInfo :: PageInfo where
  "zeroPageInfo =
     \<lparr>HasNextPage = False, EndCursor = [], HasPrevPage = False, StartCursor = [],
      Pages = []\<rparr>"

definition zeroConnection :: "'n Connection" where
  "zeroConnection = \<lparr>TotalCount = 0, Edges = [], PageInfo = zeroPageInfo\<rparr>"

section \<open>Cursor windowing\<close>

definition safeInt64Ptr :: "int option \<Rightarrow> int" where
  "safeInt64Ptr i = (case i of None \<Rightarrow> 0 | Some v \<Rightarrow> v)"

text \<open>
  \<open>getCursorIndex\<close>: the \<open>for i, val := range edges\<close> loop, \<open>i\<close> being the index of the
  head of the remaining slice.
\<close>

fun getCursorIndex_loop :: "int \<Rightarrow> 'n Edge list \<Rightarrow> string \<Rightarrow> int" where
  "getCursorIndex_loop i [] cursor = -1"
| "getCursorIndex_loop i (val # rest) cursor =
     (if Cursor val = cursor then i else getCursorIndex_loop (i + 1) rest cursor)"

definition getCursorIndex :: "'n Edge list \<Rightarrow> string \<Rightarrow> int" where
  "getCursorIndex edges cursor = getCursorIndex_loop 0 edges cursor"

text \<open>
  \<open>applyCursorsToAllEdges\<close> returns \<open>(edges, elemsAfter, elemsBefore)\<close>. \<open>edgeCount\<close> is
  read once, before either cut; the \<open>after\<close> block rebinds \<open>edges\<close>, and the \<open>before\<close>
  block searches the rebound slice. The parameters \<open>before\<close> and \<open>after\<close> are written
  \<open>beforeC\<close> and \<open>afterC\<close>.
\<close>

definition applyCursorsToAllEdges ::
  "'n Edge list \<Rightarrow> string option \<Rightarrow> string option \<Rightarrow> 'n Edge list \<times> bool \<times> bool" where
  "applyCursorsToAllEdges edges beforeC afterC =
     (let edgeCount = int (length edges);
          (edges1, elemsBefore) =
            (case afterC of
               None \<Rightarrow> (edges, False)
             | Some a \<Rightarrow>
                 (let i = getCursorIndex edges a in
                  if i \<noteq> -1 then (drop (nat (i + 1)) edges, i \<noteq> 0) else (edges, False)));
          (edges2, elemsAfter) =
            (case beforeC of
               None \<Rightarrow> (edges1, False)
             | Some b \<Rightarrow>
                 (let i = getCursorIndex edges1 b in
                  if i \<noteq> -1 then (take (nat i) edges1, i \<noteq> edgeCount - 1)
                  else (edges1, False)))
      in (edges2, elemsAfter, elemsBefore))"

text \<open>
  \<open>paginateManually\<close> mutates its receiver and returns an error: the model returns the
  receiver as the call leaves it together with the error (\<open>None\<close> for \<open>nil\<close>). On an
  error return the cursor cut and the two flags have already been written.
\<close>

definition paginateManually ::
  "'n Connection \<Rightarrow> PaginationArgs \<Rightarrow> 'n Connection \<times> error option" where
  "paginateManually c args =
     (let (edges, elemsAfter, elemsBefore) =
            applyCursorsToAllEdges (Edges c) (Before args) (After args);
          c1 = c\<lparr>Edges := edges\<rparr>;
          c2 = c1\<lparr>PageInfo := (PageInfo c1)\<lparr>HasNextPage := (Before args \<noteq> None \<and> elemsAfter)\<rparr>\<rparr>;
          c3 = c2\<lparr>PageInfo := (PageInfo c2)\<lparr>HasPrevPage := (After args \<noteq> None \<and> elemsBefore)\<rparr>\<rparr>
      in if safeInt64Ptr (First args) < 0 \<or> safeInt64Ptr (Last args) < 0 then
           (c3, Some (ClientError ''first/last cannot be a negative integer''))
         else if First args \<noteq> None \<and> Last args \<noteq> None then
           (c3, Some (ClientError ''Cannot use both first and last together''))
         else
           (let c4 =
                  (case First args of
                     Some f \<Rightarrow>
                       if int (length (Edges c3)) > f then
                         c3\<lparr>Edges := take (nat f) (Edges c3),
                            PageInfo := (PageInfo c3)\<lparr>HasNextPage := True\<rparr>\<rparr>
                       else c3
                   | None \<Rightarrow> c3);
                c5 =
                  (case Last args of
                     Some l \<Rightarrow>
                       if int (length (Edges c4)) > l then
                         c4\<lparr>Edges := drop (nat (int (length (Edges c4)) - l)) (Edges c4),
                            PageInfo := (PageInfo c4)\<lparr>HasPrevPage := True\<rparr>\<rparr>
                       else c4
                   | None \<Rightarrow> c4)
            in (c5, None)))"

definition setCursors :: "'n Connection \<Rightarrow> 'n Connection" where
  "setCursors c =
     (if length (Edges c) = 0 then c
      else
        (let c1 = c\<lparr>PageInfo := (PageInfo c)\<lparr>EndCursor := Cursor (last (Edges c))\<rparr>\<rparr>
         in c1\<lparr>PageInfo := (PageInfo c1)\<lparr>StartCursor := Cursor (hd (Edges c1))\<rparr>\<rparr>))"

definition PaginationInfo_TotalCount :: "PaginationInfo \<Rightarrow> int" where
  "PaginationInfo_TotalCount i = (case TotalCountFunc i of None \<Rightarrow> 0 | Some n \<Rightarrow> n)"

definition externallySetPageInfo :: "'n Connection \<Rightarrow> PaginationInfo \<Rightarrow> 'n Connection" where
  "externallySetPageInfo c info =
     (let c1 = c\<lparr>PageInfo := (PageInfo c)\<lparr>HasNextPage := InfoHasNextPage info\<rparr>\<rparr>;
          c2 = c1\<lparr>PageInfo := (PageInfo c1)\<lparr>HasPrevPage := InfoHasPrevPage info\<rparr>\<rparr>
      in c2\<lparr>TotalCount := PaginationInfo_TotalCount info\<rparr>)"

definition Limit :: "PaginationArgs \<Rightarrow> int" where
  "Limit p =
     (case First p of
        Some f \<Rightarrow> f
      | None \<Rightarrow> (case Last p of Some l \<Rightarrow> l | None \<Rightarrow> 0))"

section \<open>Edges and page markers\<close>

text \<open>
  A node, as the resolver's slice holds it: a struct value (\<open>[]Item\<close>) or a pointer to a
  struct (\<open>[]*Item\<close>), \<open>PtrNode None\<close> being the nil pointer. The registration of the
  node type excludes every other kind.
\<close>

datatype 'n NodeValue = StructNode 'n | PtrNode "'n option"

text \<open>
  \<open>getEdges\<close> takes the \<open>reflect.Value\<close> of each node, follows a pointer with \<open>Elem()\<close>,
  reads the key field with \<open>FieldByName(key).Interface()\<close>, prints it with \<open>%v\<close> and
  encodes it with \<open>base64.StdEncoding\<close>. \<open>Elem()\<close> of a nil pointer is the zero \<open>Value\<close>
  (here \<open>None\<close>), on which \<open>FieldByName\<close> panics. Reading the field, formatting and the
  encoding belong to Go's library: \<open>cursorVal key s\<close> stands for the cursor they produce
  from the field named \<open>key\<close> of the struct \<open>s\<close>, and is \<open>None\<close> where the struct has no field
  of that name that can be read, so that \<open>Interface()\<close> panics. The loop appends one edge
  per node to \<open>edges\<close>; a panic ends it.
\<close>

fun getEdges_loop ::
  "(string \<Rightarrow> 'n \<Rightarrow> string option) \<Rightarrow> string \<Rightarrow> 'n NodeValue list \<Rightarrow> 'n NodeValue Edge list \<Rightarrow>
     panic + 'n NodeValue Edge list" where
  "getEdges_loop cursorVal key [] edges = Inr edges"
| "getEdges_loop cursorVal key (node # rest) edges =
     (let keyValue = (case node of PtrNode p \<Rightarrow> p | StructNode s \<Rightarrow> Some s) in
      case keyValue of
        None \<Rightarrow> Inl (Panic ''reflect: call of reflect.Value.FieldByName on zero Value'')
      | Some s \<Rightarrow>
          (case cursorVal key s of
             None \<Rightarrow> Inl (Panic ''reflect: call of reflect.Value.Interface on zero Value'')
           | Some cursor \<Rightarrow>
               getEdges_loop cursorVal key rest (edges @ [\<lparr>Node = node, Cursor = cursor\<rparr>])))"

definition getEdges ::
  "(string \<Rightarrow> 'n \<Rightarrow> string option) \<Rightarrow> string \<Rightarrow> 'n NodeValue list \<Rightarrow>
     panic + 'n NodeValue Edge list" where
  "getEdges cursorVal key nodes = getEdges_loop cursorVal key nodes []"

text \<open>
  Go's \<open>%\<close> on integers truncates towards zero: the result has the sign of the dividend.
\<close>

definition go_rem :: "int \<Rightarrow> int \<Rightarrow> int" where
  "go_rem a b = sgn a * (\<bar>a\<bar> mod \<bar>b\<bar>)"

text \<open>
  \<open>getPages\<close>: the loop over \<open>edges\<close>, with \<open>n = len(edges)\<close>, the index \<open>i\<close> of the head of
  the remaining slice and the \<open>pages\<close> appended so far. Each \<open>continue\<close> goes on with the
  rest of the slice.
\<close>

fun getPages_loop :: "int \<Rightarrow> int \<Rightarrow> int \<Rightarrow> 'n Edge list \<Rightarrow> string list \<Rightarrow> string list" where
  "getPages_loop n limit i [] pages = pages"
| "getPages_loop n limit i (edge # rest) pages =
     (let pages1 = (if i = 0 then pages @ [[]] else pages) in
      if limit = 0 then getPages_loop n limit (i + 1) rest pages1
      else if i = n - 1 then getPages_loop n limit (i + 1) rest pages1
      else if go_rem (i + 1) limit = 0 then
        getPages_loop n limit (i + 1) rest (pages1 @ [Cursor edge])
      else getPages_loop n limit (i + 1) rest pages1)"

definition getPages :: "'n Edge list \<Rightarrow> int \<Rightarrow> string list" where
  "getPages edges limit = getPages_loop (int (length edges)) limit 0 edges []"

section \<open>The connection context and its validation\<close>

text \<open>
  \<open>connectionContext\<close> embeds \<open>*funcContext\<close>; of that, the pagination code reads and writes
  \<open>hasRet\<close> and \<open>hasError\<close>.
\<close>

record connectionContext =
  hasRet :: bool
  hasError :: bool
  Key :: string
  ReturnsPageInfo :: bool
  PaginationArgsIndex :: int

definition embedsPaginationArgs :: "connectionContext \<Rightarrow> bool" where
  "embedsPaginationArgs c = (PaginationArgsIndex c \<noteq> -1)"

definition IsExternallyManaged :: "connectionContext \<Rightarrow> bool" where
  "IsExternallyManaged c = (embedsPaginationArgs c \<or> ReturnsPageInfo c)"

definition Validate :: "connectionContext \<Rightarrow> error option" where
  "Validate c =
     (if IsExternallyManaged c \<and> \<not> (embedsPaginationArgs c \<and> ReturnsPageInfo c) then
        Some (Errorf ''If pagination args are embedded then pagination info must be included as a return value'')
      else None)"

text \<open>
  The types a resolver's signature is inspected for: \<open>reflect.TypeOf(PaginationArgs{})\<close>,
  \<open>reflect.TypeOf(PaginationInfo{})\<close>, \<open>errType\<close>, and any other type by its name.
\<close>

datatype GoType = PaginationArgsT | PaginationInfoT | ErrorT | OtherT string

text \<open>\<open>indexOfPaginationArgs\<close> over the field types of the argument struct.\<close>

fun indexOfPaginationArgs_loop :: "int \<Rightarrow> GoType list \<Rightarrow> int" where
  "indexOfPaginationArgs_loop i [] = -1"
| "indexOfPaginationArgs_loop i (field # rest) =
     (if field = PaginationArgsT then i else indexOfPaginationArgs_loop (i + 1) rest)"

definition indexOfPaginationArgs :: "GoType list \<Rightarrow> int" where
  "indexOfPaginationArgs argType = indexOfPaginationArgs_loop 0 argType"

text \<open>
  \<open>parsePaginatedReturnSignature\<close> over the result types \<open>out\<close> of the resolver
  (\<open>c.funcType.Out(i)\<close>) and \<open>m.MarkedNonNullable\<close>; it returns the context as it leaves
  it and the error.
\<close>

definition parsePaginatedReturnSignature ::
  "connectionContext \<Rightarrow> GoType list \<Rightarrow> bool \<Rightarrow> connectionContext \<times> error option" where
  "parsePaginatedReturnSignature c out MarkedNonNullable =
     (let c0 = c\<lparr>ReturnsPageInfo := False\<rparr>;
          (c1, out1) =
            (if length out > 0 \<and> hd out \<noteq> ErrorT then (c0\<lparr>hasRet := True\<rparr>, tl out)
             else (c0, out));
          (c2, out2) =
            (if length out1 > 0 \<and> hd out1 = PaginationInfoT then
               (c1\<lparr>ReturnsPageInfo := True\<rparr>, tl out1)
             else (c1, out1));
          (c3, out3) =
            (if length out2 > 0 \<and> hd out2 = ErrorT then (c2\<lparr>hasError := True\<rparr>, tl out2)
             else (c2, out2))
      in if length out3 \<noteq> 0 then (c3, Some (Errorf ''return values should [result][, error]''))
         else if \<not> hasRet c3 \<and> MarkedNonNullable then
           (c3, Some (Errorf ''is marked non-nullable, but has no return value''))
         else (c3, None))"

section \<open>Connection assembly\<close>

text \<open>
  The resolver's results \<open>out []reflect.Value\<close>: a slice of nodes, a \<open>PaginationInfo\<close>, an
  \<open>error\<close> interface (\<open>ErrorV None\<close> is the nil error) or a value of another kind.
\<close>

datatype 'n Value = SliceV "'n NodeValue list" | PaginationInfoV PaginationInfo | ErrorV "error option" | OtherV

definition castSlice :: "'n Value \<Rightarrow> panic + 'n NodeValue list" where
  "castSlice slice =
     (case slice of
        SliceV s \<Rightarrow> Inr s
      | _ \<Rightarrow> Inl (Panic ''cast given a non-slice type''))"

text \<open>
  \<open>getConnection\<close> returns the pair \<open>(Connection, error)\<close>, or panics: on \<open>out[0]\<close> and
  \<open>out[1]\<close> out of range, in \<open>castSlice\<close>, in \<open>getEdges\<close>, and on the type assertion
  \<open>.(PaginationInfo)\<close>.
\<close>

definition getConnection ::
  "(string \<Rightarrow> 'n \<Rightarrow> string option) \<Rightarrow> connectionContext \<Rightarrow> 'n Value list \<Rightarrow> PaginationArgs \<Rightarrow>
     panic + ('n NodeValue Connection \<times> error option)" where
  "getConnection cursorVal c out args =
     (if length out = 0 then Inl (Panic ''index out of range'')
      else
        (case castSlice (out ! 0) of
           Inl p \<Rightarrow> Inl p
         | Inr nodes \<Rightarrow>
             if length nodes = 0 then Inr (zeroConnection, None)
             else
               (let limit = Limit args in
                case getEdges cursorVal (Key c) nodes of
                  Inl p \<Rightarrow> Inl p
                | Inr edges \<Rightarrow>
                    (let pages = getPages edges limit;
                         connection =
                           \<lparr>TotalCount = int (length nodes), Edges = edges,
                            PageInfo = zeroPageInfo\<lparr>Pages := pages\<rparr>\<rparr>
                     in case paginateManually connection args of
                          (connection1, Some err) \<Rightarrow> Inr (zeroConnection, Some err)
                        | (connection1, None) \<Rightarrow>
                            (let connection2 = setCursors connection1 in
                             if IsExternallyManaged c then
                               (if length out \<le> 1 then Inl (Panic ''index out of range'')
                                else
                                  (case out ! 1 of
                                     PaginationInfoV info \<Rightarrow>
                                       Inr (externallySetPageInfo connection2 info, None)
                                   | _ \<Rightarrow> Inl (Panic ''interface conversion'')))
                             else Inr (connection2, None))))))"

text \<open>
  The \<open>args interface{}\<close> of the field: a \<open>ConnectionArgs\<close> value, or a struct given by
  the values of its fields, one of which may be the embedded \<open>PaginationArgs\<close>.
\<close>

datatype 'u FieldValue = PaginationArgsF PaginationArgs | OtherF 'u

datatype 'u ArgsValue = ConnectionArgsV "'u ConnectionArgs" | StructV "'u FieldValue list" | OtherArgs

text \<open>
  \<open>extractPaginatedRetAndErr\<close> returns \<open>(interface{}, error)\<close>, the first component
  \<open>None\<close> for \<open>nil\<close>. The failed assertion \<open>connectionArgs, _ := args.(ConnectionArgs)\<close>
  leaves the zero value; \<open>reflect.ValueOf(args).Field(i)\<close> panics on a value that is no
  struct and on an index out of range. \<open>hasError\<close> is set only for a resolver whose last
  result type is \<open>error\<close>, so \<open>out[len(out)-1]\<close> is then an error interface; on another
  last value the model panics, as \<open>err.IsNil()\<close> or the assertion \<open>.(error)\<close> would.
\<close>

definition extractPaginatedRetAndErr ::
  "(string \<Rightarrow> 'n \<Rightarrow> string option) \<Rightarrow> connectionContext \<Rightarrow> 'n Value list \<Rightarrow> 'u ArgsValue \<Rightarrow>
     panic + ('n NodeValue Connection option \<times> error option)" where
  "extractPaginatedRetAndErr cursorVal c out args =
     (let paginationArgs =
            (if \<not> IsExternallyManaged c then
               (let connectionArgs =
                      (case args of
                         ConnectionArgsV a \<Rightarrow> a
                       | _ \<Rightarrow> \<lparr>First = None, Last = None, After = None, Before = None, Args = None\<rparr>)
                in Inr \<lparr>First = First connectionArgs, Last = Last connectionArgs,
                        After = After connectionArgs, Before = Before connectionArgs\<rparr>)
             else
               (case args of
                  StructV flds \<Rightarrow>
                    if PaginationArgsIndex c < 0 \<or> PaginationArgsIndex c \<ge> int (length flds) then
                      Inl (Panic ''reflect: Field index out of range'')
                    else
                      (case flds ! nat (PaginationArgsIndex c) of
                         PaginationArgsF p \<Rightarrow> Inr p
                       | _ \<Rightarrow> Inl (Panic ''interface conversion''))
                | _ \<Rightarrow> Inl (Panic ''reflect: Field of non-struct value'')))
      in case paginationArgs of
           Inl p \<Rightarrow> Inl p
         | Inr pargs \<Rightarrow>
             (case getConnection cursorVal c out pargs of
                Inl p \<Rightarrow> Inl p
              | Inr (result, Some err) \<Rightarrow> Inr (None, Some err)
              | Inr (result, None) \<Rightarrow>
                  if hasError c then
                    (case last out of
                       ErrorV (Some err) \<Rightarrow> Inr (None, Some err)
                     | ErrorV None \<Rightarrow> Inr (Some result, None)
                     | _ \<Rightarrow> Inl (Panic ''reflect: call of reflect.Value.IsNil''))
                  else Inr (Some result, None)))"

section \<open>Reference definitions for the windowing claims\<close>

text \<open>
  The edge set after the \<open>after\<close> cut, following the words of the specification: if
  \<open>after\<close> is set and an edge with that cursor exists, the first such edge and everything
  before it are dropped; otherwise the edges stay as they are.
\<close>

definition afterCut :: "'n Edge list \<Rightarrow> string option \<Rightarrow> 'n Edge list" where
  "afterCut edges afterC =
     (case afterC of
        None \<Rightarrow> edges
      | Some a \<Rightarrow>
          if a \<in> Cursor ` set edges then tl (dropWhile (\<lambda>e. Cursor e \<noteq> a) edges) else edges)"

text \<open>
  The cut by \<open>before\<close>, in the same way: if \<open>before\<close> is set and an edge with that cursor
  exists, the first such edge and everything after it are dropped.
\<close>

definition beforeCut :: "'n Edge list \<Rightarrow> string option \<Rightarrow> 'n Edge list" where
  "beforeCut edges beforeC =
     (case beforeC of
        None \<Rightarrow> edges
      | Some b \<Rightarrow>
          if b \<in> Cursor ` set edges then takeWhile (\<lambda>e. Cursor e \<noteq> b) edges else edges)"

text \<open>\<open>cursor\<close> is found at index \<open>i\<close> of \<open>edges\<close>: the first edge that carries it.\<close>

definition cursorFoundAt :: "'n Edge list \<Rightarrow> string \<Rightarrow> nat \<Rightarrow> bool" where
  "cursorFoundAt edges cursor i =
     (i < length edges \<and> Cursor (edges ! i) = cursor \<and> (\<forall>j<i. Cursor (edges ! j) \<noteq> cursor))"

section \<open>The fixtures of the repository's tests\<close>

text \<open>
  The tests paginate \<open>Item{Id: 1}\<close> to \<open>Item{Id: 5}\<close> with key \<open>id\<close>; the struct \<open>Item\<close> is
  modelled by its only field \<open>Id\<close>. \<open>TestEmbeddedArgs\<close> expects the cursors \<open>MQ==\<close>,
  \<open>Mg==\<close>, \<open>Mw==\<close>, \<open>NA==\<close> and \<open>NQ==\<close> for them; the table holds no other \<open>Id\<close>.
\<close>

definition itemText :: "int \<Rightarrow> string" where
  "itemText node =
     (if node = 1 then ''MQ=='' else if node = 2 then ''Mg=='' else if node = 3 then ''Mw==''
      else if node = 4 then ''NA=='' else if node = 5 then ''NQ=='' else [])"

definition itemCursor :: "string \<Rightarrow> int \<Rightarrow> string option" where
  "itemCursor key node = (if key = ''Id'' then Some (itemText node) else None)"

definition itemEdge :: "int \<Rightarrow> int NodeValue Edge" where
  "itemEdge node = \<lparr>Node = StructNode node, Cursor = itemText node\<rparr>"

definition items :: "int NodeValue list" where
  "items = map StructNode [1, 2, 3, 4, 5]"

definition itemEdges :: "int NodeValue Edge list" where
  "itemEdges = map itemEdge [1, 2, 3, 4, 5]"

text \<open>
  The context of \<open>func(ctx context.Context, args Args) ([]Item, error)\<close>, paginated by
  the framework, and of \<open>func(args EmbeddedArgs) ([]Item, PaginationInfo, error)\<close>, whose
  \<open>EmbeddedArgs\<close> embeds \<open>PaginationArgs\<close> as its field 0.
\<close>

definition managedContext :: connectionContext where
  "managedContext =
     \<lparr>hasRet = True, hasError = True, Key = ''Id'', ReturnsPageInfo = False,
      PaginationArgsIndex = -1\<rparr>"

definition embeddedContext :: connectionContext where
  "embeddedContext =
     \<lparr>hasRet = True, hasError = True, Key = ''Id'', ReturnsPageInfo = True,
      PaginationArgsIndex = 0\<rparr>"

definition embeddedInfo :: PaginationInfo where
  "embeddedInfo = \<lparr>TotalCountFunc = Some 5, InfoHasNextPage = True, InfoHasPrevPage = False\<rparr>"

definition itemConnection :: "int NodeValue Connection" where
  "itemConnection = \<lparr>TotalCount = 5, Edges = itemEdges, PageInfo = zeroPageInfo\<rparr>"

section \<open>Facts about the loop functions\<close>

text \<open>
  When \<open>getEdges\<close> returns, it returns one edge per node, in order; a nil pointer among
  the nodes makes it panic.
\<close>

lemma getEdges_loop_Inr:
  "getEdges_loop cursorVal key nodes acc = Inr edges \<Longrightarrow>
     map Node edges = map Node acc @ nodes \<and> length edges = length acc + length nodes"
proof (induction nodes arbitrary: acc)
  case Nil
  then show ?case by simp
next
  case (Cons node rest)
  then show ?case
    by (fastforce simp: Let_def split: option.splits NodeValue.splits)
qed

lemma getEdges_Inr:
  "getEdges cursorVal key nodes = Inr edges \<Longrightarrow>
     map Node edges = nodes \<and> length edges = length nodes"
  using getEdges_loop_Inr [of cursorVal key nodes "[]" edges] by (simp add: getEdges_def)

lemma getEdges_loop_nil_pointer:
  "PtrNode None \<in> set nodes \<Longrightarrow> \<exists>p. getEdges_loop cursorVal key nodes acc = Inl p"
  by (induction nodes arbitrary: acc) (auto simp: Let_def split: option.splits NodeValue.splits)

lemma getEdges_nil_pointer:
  "PtrNode None \<in> set nodes \<Longrightarrow> \<exists>p. getEdges cursorVal key nodes = Inl p"
  by (simp add: getEdges_def getEdges_loop_nil_pointer)

lemma getCursorIndex_loop_eq:
  "getCursorIndex_loop i edges cursor =
     (if cursor \<in> Cursor ` set edges
      then i + int (length (takeWhile (\<lambda>e. Cursor e \<noteq> cursor) edges)) else -1)"
  by (induction edges arbitrary: i) auto

lemma getCursorIndex_eq:
  "getCursorIndex edges cursor =
     (if cursor \<in> Cursor ` set edges
      then int (length (takeWhile (\<lambda>e. Cursor e \<noteq> cursor) edges)) else -1)"
  by (simp add: getCursorIndex_def getCursorIndex_loop_eq)

text \<open>
  The index is \<open>-1\<close> or a position of the slice, so neither \<open>edges[i+1:]\<close> nor
  \<open>edges[:i]\<close> can go out of range.
\<close>

lemma getCursorIndex_range:
  "getCursorIndex edges cursor = -1 \<or>
   (0 \<le> getCursorIndex edges cursor \<and> getCursorIndex edges cursor < int (length edges))"
proof (cases "cursor \<in> Cursor ` set edges")
  case True
  then have "length (takeWhile (\<lambda>e. Cursor e \<noteq> cursor) edges) < length edges"
    by (induction edges) auto
  with True show ?thesis by (simp add: getCursorIndex_eq)
next
  case False
  then show ?thesis by (simp add: getCursorIndex_eq)
qed

lemma getCursorIndex_notin:
  "cursor \<notin> Cursor ` set edges \<Longrightarrow> getCursorIndex edges cursor = -1"
  by (simp add: getCursorIndex_eq)

text \<open>The edges that \<open>applyCursorsToAllEdges\<close> returns are the two cuts, \<open>after\<close> first.\<close>

lemma applyCursorsToAllEdges_edges:
  "fst (applyCursorsToAllEdges edges beforeC afterC) = beforeCut (afterCut edges afterC) beforeC"
proof -
  have t: "take (length (takeWhile P xs)) xs = takeWhile P xs" for P and xs :: "'a Edge list"
    by (simp add: takeWhile_eq_take [symmetric])
  show ?thesis
    by (auto simp: applyCursorsToAllEdges_def afterCut_def beforeCut_def getCursorIndex_eq Let_def t
        dropWhile_eq_drop drop_Suc tl_drop nat_add_distrib split: option.splits prod.splits)
qed

lemma cursorFoundAt_iff:
  "cursorFoundAt edges cursor i =
     (cursor \<in> Cursor ` set edges \<and> i = length (takeWhile (\<lambda>e. Cursor e \<noteq> cursor) edges))"
proof (induction edges arbitrary: i)
  case Nil
  then show ?case by (simp add: cursorFoundAt_def)
next
  case (Cons e es)
  show ?case
  proof (cases "Cursor e = cursor")
    case True
    then show ?thesis
      by (cases i) (auto simp: cursorFoundAt_def)
  next
    case False
    show ?thesis
    proof (cases i)
      case 0
      with False show ?thesis by (auto simp: cursorFoundAt_def)
    next
      case (Suc k)
      have "cursorFoundAt (e # es) cursor (Suc k) = cursorFoundAt es cursor k"
        using False
        by (auto simp: cursorFoundAt_def less_Suc_eq_0_disj all_conj_distrib)
      with False Suc Cons.IH [of k] show ?thesis by auto
    qed
  qed
qed

lemma getPages_loop_eq:
  "0 \<le> i \<Longrightarrow> getPages_loop n limit i es pages =
     pages @ (if i = 0 \<and> es \<noteq> [] then [[]] else []) @
     concat (map (\<lambda>j. if limit \<noteq> 0 \<and> i + int j \<noteq> n - 1 \<and> go_rem (i + int j + 1) limit = 0
                        then [Cursor (es ! j)] else []) [0..<length es])"
proof (induction es arbitrary: i pages)
  case Nil
  then show ?case by simp
next
  case (Cons e es)
  have upt: "[0..<Suc (length es)] = 0 # map Suc [0..<length es]"
    by (simp add: upt_conv_Cons map_Suc_upt del: upt_Suc)
  have shift: "\<And>j. i + 1 + int j = i + int (Suc j)" by simp
  have pos: "0 \<le> i + 1" "i + 1 \<noteq> 0" using Cons.prems by auto
  have IH: "getPages_loop n limit (i + 1) es ps =
      ps @ concat (map (\<lambda>j. if limit \<noteq> 0 \<and> i + int (Suc j) \<noteq> n - 1 \<and>
                               go_rem (i + int (Suc j) + 1) limit = 0
                        then [Cursor (es ! j)] else []) [0..<length es])" for ps
    using Cons.IH [OF pos(1), of ps] pos(2) by (simp add: shift)
  show ?case
    apply (simp only: getPages_loop.simps Let_def IH)
    apply (simp add: upt comp_def algebra_simps del: upt_Suc cong del: if_weak_cong)
    done
qed

lemma getPages_eq:
  "getPages edges limit =
     (if edges \<noteq> [] then [[]] else []) @
     concat (map (\<lambda>j. if limit \<noteq> 0 \<and> int j \<noteq> int (length edges) - 1 \<and>
                          go_rem (int j + 1) limit = 0
                       then [Cursor (edges ! j)] else []) [0..<length edges])"
  unfolding getPages_def by (subst getPages_loop_eq) simp_all

lemma indexOfPaginationArgs_loop_found:
  "0 \<le> i \<Longrightarrow> (indexOfPaginationArgs_loop i argType \<noteq> -1) = (PaginationArgsT \<in> set argType)"
  by (induction argType arbitrary: i) auto

lemma indexOfPaginationArgs_found:
  "(indexOfPaginationArgs argType \<noteq> -1) = (PaginationArgsT \<in> set argType)"
  by (simp add: indexOfPaginationArgs_def indexOfPaginationArgs_loop_found)

lemma parsePaginatedReturnSignature_accepts:
  "parsePaginatedReturnSignature c out m = (c', None) \<Longrightarrow>
     ReturnsPageInfo c' = (PaginationInfoT \<in> set (tl out)) \<and>
     PaginationArgsIndex c' = PaginationArgsIndex c"
  apply (cases out; cases "tl out"; cases "tl (tl out)"; cases "tl (tl (tl out))")
  apply (auto simp: parsePaginatedReturnSignature_def Let_def split: if_splits)
  done

text \<open>
  An accepted return signature that ends in \<open>error\<close> sets \<open>hasError\<close>: a resolver that can
  return an error is one whose context has the flag.
\<close>

lemma parsePaginatedReturnSignature_hasError:
  "parsePaginatedReturnSignature c out m = (c', None) \<Longrightarrow> out \<noteq> [] \<Longrightarrow> last out = ErrorT \<Longrightarrow>
     hasError c'"
  apply (cases out; cases "tl out"; cases "tl (tl out)"; cases "tl (tl (tl out))")
  apply (auto simp: parsePaginatedReturnSignature_def Let_def split: if_splits)
  done

section \<open>The claims\<close>

text \<open>The definitions a concrete instance unfolds.\<close>

lemmas fixture_defs =
  itemEdges_def itemEdge_def items_def itemCursor_def itemText_def managedContext_def
  embeddedContext_def embeddedInfo_def itemConnection_def zeroPageInfo_def zeroConnection_def

lemma getEdges_items: "getEdges itemCursor ''Id'' items = Inr itemEdges"
  by (simp add: getEdges_def fixture_defs)

text \<open>
  Claim C1. In \<open>applyCursorsToAllEdges\<close> the \<open>before\<close> cursor is looked up in the edges as
  they stand after the \<open>after\<close> cut, and \<open>elemsAfter\<close> compares the index found there with
  \<open>edgeCount - 1\<close>, the last index of the list before that cut: \<open>elemsAfter\<close> is true
  exactly when \<open>before\<close> is set and found at an index \<open>i\<close> of the cut list with \<open>i\<close> different
  from the length of the given list minus one.
\<close>

theorem elemsAfter_iff:
  "fst (applyCursorsToAllEdges edges None afterC) = afterCut edges afterC
   \<and> fst (snd (applyCursorsToAllEdges edges beforeC afterC)) =
       (\<exists>b i. beforeC = Some b \<and> cursorFoundAt (afterCut edges afterC) b i \<and>
              int i \<noteq> int (length edges) - 1)"
  by (auto simp: applyCursorsToAllEdges_def afterCut_def getCursorIndex_eq Let_def cursorFoundAt_iff
      dropWhile_eq_drop drop_Suc tl_drop nat_add_distrib split: option.splits prod.splits)

text \<open>
  With \<open>after\<close> at the first and \<open>before\<close> at the last of the five test items, the cut list
  has four edges and \<open>before\<close> is found at its last index 3; compared with 4, the last index
  of the five, this sets \<open>elemsAfter\<close>.
\<close>

theorem elemsAfter_iff_witness:
  "afterCut itemEdges (Some ''MQ=='') = map itemEdge [2, 3, 4, 5]
   \<and> cursorFoundAt (afterCut itemEdges (Some ''MQ=='')) ''NQ=='' 3
   \<and> fst (snd (applyCursorsToAllEdges itemEdges (Some ''NQ=='') (Some ''MQ=='')))"
proof -
  have cut: "afterCut itemEdges (Some ''MQ=='') = map itemEdge [2, 3, 4, 5]"
    by (simp add: afterCut_def fixture_defs)
  have found: "cursorFoundAt (afterCut itemEdges (Some ''MQ=='')) ''NQ=='' 3"
    unfolding cut by (auto simp: cursorFoundAt_def fixture_defs less_Suc_eq numeral_3_eq_3)
  have "int 3 \<noteq> int (length itemEdges) - 1"
    by (simp add: fixture_defs)
  with found cut elemsAfter_iff [of itemEdges "Some ''MQ==''" "Some ''NQ==''"]
  show ?thesis by blast
qed

text \<open>
  Claim C2, as amended. In externally-managed mode \<open>getConnection\<close> runs the same windowing
  as in framework-managed mode. For a non-empty node list from which \<open>getEdges\<close> builds the
  edges, and pagination arguments whose \<open>first\<close> and \<open>last\<close> are not negative and not both
  set, the connection of an externally-managed context is the connection that a
  framework-managed context with the same key returns for the same nodes and arguments,
  with \<open>externallySetPageInfo\<close> applied. Its edges are therefore the same: the edges built
  from the node list, cut after the \<open>after\<close> cursor, then before the \<open>before\<close> cursor, then
  truncated to the first \<open>first\<close> or the last \<open>last\<close>. \<open>HasNextPage\<close>, \<open>HasPrevPage\<close> and
  \<open>TotalCount\<close> are those of the resolver's \<open>PaginationInfo\<close>.
\<close>

theorem external_mode_windows:
  assumes "nodes \<noteq> []" and "getEdges cursorVal (Key c) nodes = Inr edges"
    and "IsExternallyManaged c" and "\<not> IsExternallyManaged c'" and "Key c' = Key c"
    and "\<not> safeInt64Ptr (First args) < 0" and "\<not> safeInt64Ptr (Last args) < 0"
    and "\<not> (First args \<noteq> None \<and> Last args \<noteq> None)"
  shows "\<exists>conn conn'.
      getConnection cursorVal c (SliceV nodes # PaginationInfoV info # rest) args = Inr (conn, None)
      \<and> getConnection cursorVal c' (SliceV nodes # rest') args = Inr (conn', None)
      \<and> conn = externallySetPageInfo conn' info
      \<and> Edges conn = Edges conn'
      \<and> Edges conn =
          (let es = beforeCut (afterCut edges (After args)) (Before args)
           in case First args of
                Some f \<Rightarrow> take (nat f) es
              | None \<Rightarrow> (case Last args of Some l \<Rightarrow> drop (length es - nat l) es | None \<Rightarrow> es))
      \<and> HasNextPage (PageInfo conn) = InfoHasNextPage info
      \<and> HasPrevPage (PageInfo conn) = InfoHasPrevPage info
      \<and> TotalCount conn = PaginationInfo_TotalCount info"
proof -
  obtain es ea eb where
    cut: "applyCursorsToAllEdges edges (Before args) (After args) = (es, ea, eb)"
    by (cases "applyCursorsToAllEdges edges (Before args) (After args)") auto
  have es: "es = beforeCut (afterCut edges (After args)) (Before args)"
    using applyCursorsToAllEdges_edges [of edges "Before args" "After args"] cut by simp
  show ?thesis
    using assms cut
    by (auto simp: getConnection_def castSlice_def paginateManually_def safeInt64Ptr_def Let_def
        setCursors_def externallySetPageInfo_def nat_diff_distrib es [symmetric]
        split: option.splits)
qed

text \<open>
  The resolver of \<open>TestEmbeddedArgs\<close> next to the framework-managed resolver of
  \<open>TestConnection\<close>, with \<open>after\<close> at the first item, \<open>before\<close> at the last and \<open>first: 2\<close>:
  both connections hold the second and the third of the five edges.
\<close>

theorem external_mode_windows_witness:
  "\<exists>conn conn'.
     getConnection itemCursor embeddedContext
       [SliceV items, PaginationInfoV embeddedInfo, ErrorV None]
       \<lparr>First = Some 2, Last = None, After = Some ''MQ=='', Before = Some ''NQ==''\<rparr> =
       Inr (conn, None)
     \<and> getConnection itemCursor managedContext [SliceV items, ErrorV None]
       \<lparr>First = Some 2, Last = None, After = Some ''MQ=='', Before = Some ''NQ==''\<rparr> =
       Inr (conn', None)
     \<and> Edges conn' = map itemEdge [2, 3]
     \<and> Edges conn = map itemEdge [2, 3]
     \<and> HasNextPage (PageInfo conn) \<and> \<not> HasPrevPage (PageInfo conn) \<and> TotalCount conn = 5"
proof -
  let ?args = "\<lparr>First = Some 2, Last = None, After = Some ''MQ=='', Before = Some ''NQ==''\<rparr>"
  have h1: "items \<noteq> []" by (simp add: items_def)
  have h2: "getEdges itemCursor (Key embeddedContext) items = Inr itemEdges"
    by (simp add: getEdges_items embeddedContext_def)
  have h3: "IsExternallyManaged embeddedContext"
    by (simp add: IsExternallyManaged_def embeddedContext_def)
  have h4: "\<not> IsExternallyManaged managedContext"
    by (simp add: IsExternallyManaged_def embedsPaginationArgs_def managedContext_def)
  have h5: "Key managedContext = Key embeddedContext"
    by (simp add: managedContext_def embeddedContext_def)
  have h6: "\<not> safeInt64Ptr (First ?args) < 0" by (simp add: safeInt64Ptr_def)
  have h7: "\<not> safeInt64Ptr (Last ?args) < 0" by (simp add: safeInt64Ptr_def)
  have h8: "\<not> (First ?args \<noteq> None \<and> Last ?args \<noteq> None)" by simp
  have w: "(let es = beforeCut (afterCut itemEdges (After ?args)) (Before ?args)
        in case First ?args of
             Some f \<Rightarrow> take (nat f) es
           | None \<Rightarrow> (case Last ?args of Some l \<Rightarrow> drop (length es - nat l) es | None \<Rightarrow> es))
      = map itemEdge [2, 3]"
    by (simp add: afterCut_def beforeCut_def itemEdges_def itemEdge_def itemText_def)
  from external_mode_windows [OF h1 h2 h3 h4 h5 h6 h7 h8, of embeddedInfo "[ErrorV None]" "[ErrorV None]"]
  obtain conn conn' where
    "getConnection itemCursor embeddedContext
       [SliceV items, PaginationInfoV embeddedInfo, ErrorV None] ?args = Inr (conn, None)"
    "getConnection itemCursor managedContext [SliceV items, ErrorV None] ?args = Inr (conn', None)"
    "Edges conn = Edges conn'"
    "Edges conn =
       (let es = beforeCut (afterCut itemEdges (After ?args)) (Before ?args)
        in case First ?args of
             Some f \<Rightarrow> take (nat f) es
           | None \<Rightarrow> (case Last ?args of Some l \<Rightarrow> drop (length es - nat l) es | None \<Rightarrow> es))"
    "HasNextPage (PageInfo conn) = InfoHasNextPage embeddedInfo"
    "HasPrevPage (PageInfo conn) = InfoHasPrevPage embeddedInfo"
    "TotalCount conn = PaginationInfo_TotalCount embeddedInfo"
    by blast
  then show ?thesis
    unfolding w
    by (intro exI [of _ conn] exI [of _ conn'])
      (simp add: PaginationInfo_TotalCount_def embeddedInfo_def)
qed

text \<open>
  The claim as stated fails: with \<open>first: 2\<close> the resolver of \<open>TestEmbeddedArgs\<close>, which
  returns five items, gets a connection of two edges, while five edges are built from
  its node list.
\<close>

theorem external_mode_slices_counterexample:
  "getConnection itemCursor embeddedContext
     [SliceV [StructNode 1, StructNode 2, StructNode 3, StructNode 4, StructNode 5],
      PaginationInfoV embeddedInfo, ErrorV None]
     \<lparr>First = Some 2, Last = None, After = None, Before = None\<rparr> =
   Inr (\<lparr>TotalCount = 5,
         Edges = [\<lparr>Node = StructNode 1, Cursor = ''MQ==''\<rparr>,
                  \<lparr>Node = StructNode 2, Cursor = ''Mg==''\<rparr>],
         PageInfo = \<lparr>HasNextPage = True, EndCursor = ''Mg=='', HasPrevPage = False,
                     StartCursor = ''MQ=='', Pages = [[], ''Mg=='', ''NA=='']\<rparr>\<rparr>, None)
   \<and> getEdges itemCursor (Key embeddedContext)
       [StructNode 1, StructNode 2, StructNode 3, StructNode 4, StructNode 5] =
     Inr [\<lparr>Node = StructNode 1, Cursor = ''MQ==''\<rparr>, \<lparr>Node = StructNode 2, Cursor = ''Mg==''\<rparr>,
          \<lparr>Node = StructNode 3, Cursor = ''Mw==''\<rparr>, \<lparr>Node = StructNode 4, Cursor = ''NA==''\<rparr>,
          \<lparr>Node = StructNode 5, Cursor = ''NQ==''\<rparr>]"
  by (simp add: getConnection_def castSlice_def getEdges_def paginateManually_def safeInt64Ptr_def
      Let_def setCursors_def externallySetPageInfo_def applyCursorsToAllEdges_def Limit_def
      getPages_def go_rem_def IsExternallyManaged_def embedsPaginationArgs_def
      PaginationInfo_TotalCount_def fixture_defs)

text \<open>
  Claim C3. After the cursors have been applied and with \<open>first\<close> and \<open>last\<close> not negative
  and not both set: if \<open>first\<close> is set and more than \<open>first\<close> edges remain,
  \<open>paginateManually\<close> keeps the first \<open>first\<close> of them and sets \<open>HasNextPage\<close>; if \<open>last\<close> is
  set and more than \<open>last\<close> edges remain, it keeps the last \<open>last\<close> of them and sets
  \<open>HasPrevPage\<close>. In both cases exactly that many edges are left and no error is returned.
\<close>

theorem first_last_truncate:
  assumes "\<not> safeInt64Ptr (First args) < 0" and "\<not> safeInt64Ptr (Last args) < 0"
    and "\<not> (First args \<noteq> None \<and> Last args \<noteq> None)"
    and "applyCursorsToAllEdges (Edges c) (Before args) (After args) = (es, ea, eb)"
  shows "(First args = Some n \<and> int (length es) > n \<longrightarrow>
           paginateManually c args =
             (c\<lparr>Edges := take (nat n) es,
                PageInfo := (PageInfo c)\<lparr>HasNextPage := True,
                                          HasPrevPage := (After args \<noteq> None \<and> eb)\<rparr>\<rparr>, None)
           \<and> int (length (Edges (fst (paginateManually c args)))) = n
           \<and> HasNextPage (PageInfo (fst (paginateManually c args))))
       \<and> (Last args = Some n \<and> int (length es) > n \<longrightarrow>
           paginateManually c args =
             (c\<lparr>Edges := drop (length es - nat n) es,
                PageInfo := (PageInfo c)\<lparr>HasNextPage := (Before args \<noteq> None \<and> ea),
                                          HasPrevPage := True\<rparr>\<rparr>, None)
           \<and> int (length (Edges (fst (paginateManually c args)))) = n
           \<and> HasPrevPage (PageInfo (fst (paginateManually c args))))"
  using assms
  by (auto simp: paginateManually_def safeInt64Ptr_def Let_def nat_diff_distrib split: option.splits)

theorem first_last_truncate_witness:
  "paginateManually itemConnection \<lparr>First = Some 2, Last = None, After = None, Before = None\<rparr> =
     (itemConnection\<lparr>Edges := map itemEdge [1, 2],
                     PageInfo := zeroPageInfo\<lparr>HasNextPage := True\<rparr>\<rparr>, None)
   \<and> paginateManually itemConnection \<lparr>First = None, Last = Some 2, After = None, Before = None\<rparr> =
     (itemConnection\<lparr>Edges := map itemEdge [4, 5],
                     PageInfo := zeroPageInfo\<lparr>HasPrevPage := True\<rparr>\<rparr>, None)"
proof -
  let ?f = "\<lparr>First = Some 2, Last = None, After = None, Before = None\<rparr>"
  let ?l = "\<lparr>First = None, Last = Some 2, After = None, Before = None\<rparr>"
  have cut: "applyCursorsToAllEdges (Edges itemConnection) None None = (itemEdges, False, False)"
    by (simp add: applyCursorsToAllEdges_def itemConnection_def)
  have f: "\<not> safeInt64Ptr (First ?f) < 0" "\<not> safeInt64Ptr (Last ?f) < 0"
    "\<not> (First ?f \<noteq> None \<and> Last ?f \<noteq> None)"
    "applyCursorsToAllEdges (Edges itemConnection) (Before ?f) (After ?f) = (itemEdges, False, False)"
    by (simp_all add: safeInt64Ptr_def cut)
  have l: "\<not> safeInt64Ptr (First ?l) < 0" "\<not> safeInt64Ptr (Last ?l) < 0"
    "\<not> (First ?l \<noteq> None \<and> Last ?l \<noteq> None)"
    "applyCursorsToAllEdges (Edges itemConnection) (Before ?l) (After ?l) = (itemEdges, False, False)"
    by (simp_all add: safeInt64Ptr_def cut)
  have len: "int (length itemEdges) > 2" by (simp add: fixture_defs)
  from first_last_truncate [OF f, of 2] first_last_truncate [OF l, of 2] len
  show ?thesis by (simp add: fixture_defs)
qed

text \<open>
  Claim C4. \<open>paginateManually\<close> returns a client error exactly when \<open>first\<close> is negative,
  \<open>last\<close> is negative, or both \<open>first\<close> and \<open>last\<close> are set; in every other case it returns
  no error.
\<close>

theorem paginateManually_error_iff:
  "(\<exists>msg. snd (paginateManually c args) = Some (ClientError msg)) =
     ((\<exists>f. First args = Some f \<and> f < 0) \<or> (\<exists>l. Last args = Some l \<and> l < 0) \<or>
      (First args \<noteq> None \<and> Last args \<noteq> None))
   \<and> (snd (paginateManually c args) = None) =
     (\<not> ((\<exists>f. First args = Some f \<and> f < 0) \<or> (\<exists>l. Last args = Some l \<and> l < 0) \<or>
      (First args \<noteq> None \<and> Last args \<noteq> None)))"
  by (auto simp: paginateManually_def safeInt64Ptr_def Let_def split: prod.splits option.splits)

text \<open>The test's \<open>last: -2, before: ""\<close> is rejected; \<open>last: 2, before: ""\<close> is not.\<close>

theorem paginateManually_error_iff_witness:
  "(\<exists>msg. snd (paginateManually itemConnection
              \<lparr>First = None, Last = Some (- 2), After = None, Before = Some []\<rparr>) =
            Some (ClientError msg))
   \<and> snd (paginateManually itemConnection
            \<lparr>First = None, Last = Some 2, After = None, Before = Some []\<rparr>) = None"
  using paginateManually_error_iff
          [of itemConnection "\<lparr>First = None, Last = Some (- 2), After = None, Before = Some []\<rparr>"]
        paginateManually_error_iff
          [of itemConnection "\<lparr>First = None, Last = Some 2, After = None, Before = Some []\<rparr>"]
  by simp

text \<open>
  Claim C5. For an empty node list \<open>getConnection\<close> returns the zero-value connection (no
  edges, zero-value \<open>PageInfo\<close>, \<open>TotalCount\<close> 0) and no error, whatever the pagination
  arguments and the mode are: no windowing and none of its checks run.
\<close>

theorem getConnection_empty:
  "getConnection cursorVal c (SliceV [] # rest) args =
     Inr (\<lparr>TotalCount = 0, Edges = [],
           PageInfo = \<lparr>HasNextPage = False, EndCursor = [], HasPrevPage = False,
                       StartCursor = [], Pages = []\<rparr>\<rparr>, None)"
  by (simp add: getConnection_def castSlice_def zeroConnection_def zeroPageInfo_def)

theorem getConnection_empty_witness:
  "getConnection itemCursor managedContext [SliceV [], ErrorV None]
     \<lparr>First = Some (- 1), Last = Some (- 1), After = None, Before = None\<rparr> =
   Inr (zeroConnection, None)"
  using getConnection_empty
          [of itemCursor managedContext "[ErrorV None]"
              "\<lparr>First = Some (- 1), Last = Some (- 1), After = None, Before = None\<rparr>"]
  by (simp add: zeroConnection_def zeroPageInfo_def)

text \<open>
  Claim C6. When the resolver returned a non-nil error (its signature ends in \<open>error\<close>, so
  \<open>hasError\<close> is set and the error is the last result) and the connection is assembled
  without error, \<open>extractPaginatedRetAndErr\<close> returns \<open>nil\<close> and that very error. The
  resolver's error is read after the assembly: when the assembly itself fails, its error
  is returned. The pagination arguments are those of the \<open>ConnectionArgs\<close> in
  framework-managed mode and the embedded \<open>PaginationArgs\<close> field otherwise.
\<close>

theorem resolver_error_priority:
  assumes "hasError c" and "last out = ErrorV (Some e)"
    and "(\<not> IsExternallyManaged c \<and> args = ConnectionArgsV a \<and>
          pargs = \<lparr>First = First a, Last = Last a, After = After a, Before = Before a\<rparr>)
         \<or> (IsExternallyManaged c \<and> args = StructV flds \<and> 0 \<le> PaginationArgsIndex c \<and>
             PaginationArgsIndex c < int (length flds) \<and>
             flds ! nat (PaginationArgsIndex c) = PaginationArgsF pargs)"
  shows "(getConnection cursorVal c out pargs = Inr (conn, None) \<longrightarrow>
            extractPaginatedRetAndErr cursorVal c out args = Inr (None, Some e))
       \<and> (getConnection cursorVal c out pargs = Inr (conn, Some e') \<longrightarrow>
            extractPaginatedRetAndErr cursorVal c out args = Inr (None, Some e'))"
  using assms
  by (auto simp: extractPaginatedRetAndErr_def Let_def)

text \<open>
  The resolver of the test field \<open>innerConnectionWithError\<close> returns \<open>nil\<close> and an error:
  the field's result is that error. A resolver error next to \<open>first: -1\<close> on five items:
  the assembly fails first and its client error is returned.
\<close>

theorem resolver_error_priority_witness:
  "getConnection itemCursor managedContext
     [SliceV [], ErrorV (Some (SafeError ''this is an error''))]
     \<lparr>First = Some 1, Last = None, After = Some [], Before = None\<rparr> = Inr (zeroConnection, None)
   \<and> extractPaginatedRetAndErr itemCursor managedContext
       [SliceV [], ErrorV (Some (SafeError ''this is an error''))]
       (ConnectionArgsV \<lparr>First = Some 1, Last = None, After = Some [], Before = None,
                         Args = Some ()\<rparr>) =
     Inr (None, Some (SafeError ''this is an error''))
   \<and> extractPaginatedRetAndErr itemCursor managedContext
       [SliceV items, ErrorV (Some (SafeError ''this is an error''))]
       (ConnectionArgsV \<lparr>First = Some (- 1), Last = None, After = None, Before = None,
                         Args = Some ()\<rparr>) =
     Inr (None, Some (ClientError ''first/last cannot be a negative integer''))"
proof -
  let ?out1 = "[SliceV [], ErrorV (Some (SafeError ''this is an error''))]"
  let ?out2 = "[SliceV items, ErrorV (Some (SafeError ''this is an error''))]"
  let ?a1 = "\<lparr>First = Some 1, Last = None, After = Some [], Before = None, Args = Some ()\<rparr>"
  let ?a2 = "\<lparr>First = Some (- 1), Last = None, After = None, Before = None, Args = Some ()\<rparr>"
  let ?p1 = "\<lparr>First = Some 1, Last = None, After = Some [], Before = None\<rparr>"
  let ?p2 = "\<lparr>First = Some (- 1), Last = None, After = None, Before = None\<rparr>"
  have h: "hasError managedContext" "\<not> IsExternallyManaged managedContext"
    by (simp_all add: managedContext_def IsExternallyManaged_def embedsPaginationArgs_def)
  have m1: "(\<not> IsExternallyManaged managedContext \<and> ConnectionArgsV ?a1 = ConnectionArgsV ?a1 \<and>
            ?p1 = \<lparr>First = First ?a1, Last = Last ?a1, After = After ?a1, Before = Before ?a1\<rparr>)
          \<or> (IsExternallyManaged managedContext \<and> ConnectionArgsV ?a1 = StructV [] \<and>
              0 \<le> PaginationArgsIndex managedContext \<and>
              PaginationArgsIndex managedContext < int (length ([] :: unit FieldValue list)) \<and>
              [] ! nat (PaginationArgsIndex managedContext) = PaginationArgsF ?p1)"
    using h by simp
  have m2: "(\<not> IsExternallyManaged managedContext \<and> ConnectionArgsV ?a2 = ConnectionArgsV ?a2 \<and>
            ?p2 = \<lparr>First = First ?a2, Last = Last ?a2, After = After ?a2, Before = Before ?a2\<rparr>)
          \<or> (IsExternallyManaged managedContext \<and> ConnectionArgsV ?a2 = StructV [] \<and>
              0 \<le> PaginationArgsIndex managedContext \<and>
              PaginationArgsIndex managedContext < int (length ([] :: unit FieldValue list)) \<and>
              [] ! nat (PaginationArgsIndex managedContext) = PaginationArgsF ?p2)"
    using h by simp
  have g1: "getConnection itemCursor managedContext ?out1 ?p1 = Inr (zeroConnection, None)"
    by (simp add: getConnection_def castSlice_def)
  have g2: "getConnection itemCursor managedContext ?out2 ?p2 =
      Inr (zeroConnection, Some (ClientError ''first/last cannot be a negative integer''))"
    using getEdges_items
    by (simp add: getConnection_def castSlice_def paginateManually_def safeInt64Ptr_def Let_def
        items_def managedContext_def split: prod.splits)
  have l1: "last ?out1 = ErrorV (Some (SafeError ''this is an error''))" by simp
  have l2: "last ?out2 = ErrorV (Some (SafeError ''this is an error''))" by simp
  from resolver_error_priority [OF h(1) l1 m1, of itemCursor zeroConnection] g1
    resolver_error_priority [OF h(1) l2 m2, of itemCursor zeroConnection
      "ClientError ''first/last cannot be a negative integer''"] g2
  show ?thesis by simp
qed

text \<open>
  Claim C7. A cursor that matches no edge of the set it is searched in changes nothing on
  its side: with an \<open>after\<close> that is not among the cursors of the edges,
  \<open>applyCursorsToAllEdges\<close> returns what it returns without \<open>after\<close>, and \<open>elemsBefore\<close> is
  false; with a \<open>before\<close> that is not among the cursors left by the \<open>after\<close> cut, it returns
  what it returns without \<open>before\<close>, and \<open>elemsAfter\<close> is false. The function has no error
  result.
\<close>

theorem unmatched_cursor_noop:
  "(a \<notin> Cursor ` set edges \<longrightarrow>
      applyCursorsToAllEdges edges beforeC (Some a) = applyCursorsToAllEdges edges beforeC None \<and>
      snd (snd (applyCursorsToAllEdges edges beforeC (Some a))) = False)
   \<and> (b \<notin> Cursor ` set (fst (applyCursorsToAllEdges edges None afterC)) \<longrightarrow>
      applyCursorsToAllEdges edges (Some b) afterC = applyCursorsToAllEdges edges None afterC \<and>
      fst (snd (applyCursorsToAllEdges edges (Some b) afterC)) = False)"
  by (auto simp: applyCursorsToAllEdges_def getCursorIndex_notin Let_def
      split: option.splits prod.splits)

text \<open>
  The tests' \<open>after: ""\<close> and \<open>before: ""\<close> on the five items, and \<open>first: 1, after: ""\<close>:
  the cursor is not found, the first edge is kept and \<open>HasNextPage\<close> is set.
\<close>

theorem unmatched_cursor_noop_witness:
  "[] \<notin> Cursor ` set itemEdges
   \<and> applyCursorsToAllEdges itemEdges None (Some []) = (itemEdges, False, False)
   \<and> applyCursorsToAllEdges itemEdges (Some []) None = (itemEdges, False, False)
   \<and> paginateManually itemConnection \<lparr>First = Some 1, Last = None, After = Some [], Before = None\<rparr> =
       (itemConnection\<lparr>Edges := [\<lparr>Node = StructNode 1, Cursor = ''MQ==''\<rparr>],
                       PageInfo := zeroPageInfo\<lparr>HasNextPage := True\<rparr>\<rparr>, None)"
proof -
  have p: "paginateManually itemConnection
             \<lparr>First = Some 1, Last = None, After = Some [], Before = None\<rparr> =
       (itemConnection\<lparr>Edges := [\<lparr>Node = StructNode 1, Cursor = ''MQ==''\<rparr>],
                       PageInfo := zeroPageInfo\<lparr>HasNextPage := True\<rparr>\<rparr>, None)"
    by (simp add: paginateManually_def applyCursorsToAllEdges_def getCursorIndex_def
        safeInt64Ptr_def fixture_defs)
  have n: "[] \<notin> Cursor ` set itemEdges" by (simp add: fixture_defs)
  have none: "applyCursorsToAllEdges itemEdges None None = (itemEdges, False, False)"
    by (simp add: applyCursorsToAllEdges_def)
  then have n': "[] \<notin> Cursor ` set (fst (applyCursorsToAllEdges itemEdges None None))"
    using n by simp
  from unmatched_cursor_noop [of "[]" itemEdges None "[]" None] n n' none p
  show ?thesis by simp
qed

text \<open>
  Claim C8, as amended. For a non-empty edge list \<open>getPages\<close> returns the empty string
  followed, in order, by the cursor of every edge at a 0-based index \<open>i\<close> with \<open>limit\<close> not
  0, \<open>i\<close> not the last index and \<open>(i+1) % limit = 0\<close>; for the empty edge list it returns the
  empty list. With \<open>limit\<close> 2 and five edges the result is the empty string and the cursors
  of the second and the fourth edge.
\<close>

theorem getPages_markers:
  "(edges \<noteq> [] \<longrightarrow>
      getPages edges limit =
        [] # [Cursor (edges ! i). i \<leftarrow> [0..<length edges],
                limit \<noteq> 0 \<and> int i \<noteq> int (length edges) - 1 \<and> go_rem (int i + 1) limit = 0])
   \<and> getPages ([] :: 'n Edge list) limit = []
   \<and> (length edges = 5 \<longrightarrow> getPages edges 2 = [[], Cursor (edges ! 1), Cursor (edges ! 3)])"
proof -
  have five: "[0..<5] = [0, 1, 2, 3, 4::nat]" by (simp add: upt_rec)
  have "getPages edges limit =
        [] # [Cursor (edges ! i). i \<leftarrow> [0..<length edges],
                limit \<noteq> 0 \<and> int i \<noteq> int (length edges) - 1 \<and> go_rem (int i + 1) limit = 0]"
    if "edges \<noteq> []"
    using that by (simp add: getPages_eq)
  moreover have "getPages ([] :: 'n Edge list) limit = []"
    by (simp add: getPages_def)
  moreover have "getPages edges 2 = [[], Cursor (edges ! 1), Cursor (edges ! 3)]"
    if "length edges = 5"
  proof -
    from that have "edges \<noteq> []" by auto
    with that show ?thesis by (simp add: getPages_eq five go_rem_def)
  qed
  ultimately show ?thesis by blast
qed

theorem getPages_markers_witness:
  "itemEdges \<noteq> [] \<and> length itemEdges = 5 \<and> getPages itemEdges 2 = [[], ''Mg=='', ''NA=='']"
proof -
  have h: "itemEdges \<noteq> []" "length itemEdges = 5" by (simp_all add: fixture_defs)
  with getPages_markers [of itemEdges 2]
  have "getPages itemEdges 2 = [[], Cursor (itemEdges ! 1), Cursor (itemEdges ! 3)]"
    by blast
  with h show ?thesis by (simp add: fixture_defs)
qed

text \<open>
  The claim as stated fails on the empty edge list: the loop body never runs, so not even
  the empty string is appended.
\<close>

theorem getPages_empty_counterexample:
  "getPages ([] :: int Edge list) 2 = [] \<and> getPages ([] :: int Edge list) 2 \<noteq> [[]]"
  by (simp add: getPages_def)

text \<open>
  Claim C9. \<open>Validate\<close> returns an error exactly when the connection is externally managed
  without both markers, that is when exactly one of "embeds \<open>PaginationArgs\<close>" and
  "returns \<open>PaginationInfo\<close>" holds. For a resolver whose return signature is accepted, the
  error arises exactly when the argument struct has a \<open>PaginationArgs\<close> field and
  \<open>PaginationInfo\<close> is not among the results after the first, or the other way round;
  \<open>buildPaginatedField\<close> returns this error, so the schema is not built.
\<close>

theorem Validate_error_iff:
  "(Validate c \<noteq> None) = (IsExternallyManaged c \<and> \<not> (embedsPaginationArgs c \<and> ReturnsPageInfo c))
   \<and> (Validate c \<noteq> None) = (embedsPaginationArgs c \<noteq> ReturnsPageInfo c)
   \<and> (parsePaginatedReturnSignature (c\<lparr>PaginationArgsIndex := indexOfPaginationArgs argType\<rparr>) out m
         = (c', None) \<longrightarrow>
       (Validate c' \<noteq> None) = ((PaginationArgsT \<in> set argType) \<noteq> (PaginationInfoT \<in> set (tl out))))"
  using parsePaginatedReturnSignature_accepts
          [of "c\<lparr>PaginationArgsIndex := indexOfPaginationArgs argType\<rparr>" out m c']
    indexOfPaginationArgs_found [of argType]
  by (auto simp: Validate_def IsExternallyManaged_def embedsPaginationArgs_def)

text \<open>
  A resolver \<open>func(args EmbeddedArgs) []Item\<close>: \<open>PaginationArgs\<close> embedded, no
  \<open>PaginationInfo\<close> returned.
\<close>

theorem Validate_error_iff_witness:
  "parsePaginatedReturnSignature
     (embeddedContext\<lparr>hasRet := False, hasError := False,
        PaginationArgsIndex := indexOfPaginationArgs [PaginationArgsT, OtherT ''string'']\<rparr>)
     [OtherT ''[]Item''] True =
     (embeddedContext\<lparr>hasError := False, ReturnsPageInfo := False\<rparr>, None)
   \<and> Validate (embeddedContext\<lparr>hasError := False, ReturnsPageInfo := False\<rparr>) \<noteq> None"
proof -
  have p: "parsePaginatedReturnSignature
     (embeddedContext\<lparr>hasRet := False, hasError := False,
        PaginationArgsIndex := indexOfPaginationArgs [PaginationArgsT, OtherT ''string'']\<rparr>)
     [OtherT ''[]Item''] True =
     (embeddedContext\<lparr>hasError := False, ReturnsPageInfo := False\<rparr>, None)"
    by (simp add: parsePaginatedReturnSignature_def indexOfPaginationArgs_def embeddedContext_def)
  from Validate_error_iff
         [of "embeddedContext\<lparr>hasRet := False, hasError := False\<rparr>"
             "[PaginationArgsT, OtherT ''string'']" "[OtherT ''[]Item'']" True
             "embeddedContext\<lparr>hasError := False, ReturnsPageInfo := False\<rparr>"] p
  show ?thesis by simp
qed

text \<open>
  Claim C10, as amended. For a non-empty node list from which \<open>getEdges\<close> builds the edges,
  and pagination arguments that the windowing rejects (\<open>first\<close> negative, \<open>last\<close> negative,
  or both set), \<open>getConnection\<close> returns the zero-value connection together with the client
  error of \<open>paginateManually\<close>. Moreover, whatever the results and the arguments are, a
  connection that \<open>getConnection\<close> returns together with an error is the zero value:
  nothing of the edges, pages, count and flags that a failed call had written is returned.
\<close>

theorem getConnection_client_error_atomic:
  assumes "nodes \<noteq> []" and "getEdges cursorVal (Key c) nodes = Inr edges"
    and "(\<exists>f. First args = Some f \<and> f < 0) \<or> (\<exists>l. Last args = Some l \<and> l < 0) \<or>
         (First args \<noteq> None \<and> Last args \<noteq> None)"
  shows "(\<exists>msg.
     snd (paginateManually
            \<lparr>TotalCount = int (length nodes), Edges = edges,
             PageInfo = zeroPageInfo\<lparr>Pages := getPages edges (Limit args)\<rparr>\<rparr>
            args) = Some (ClientError msg)
     \<and> getConnection cursorVal c (SliceV nodes # rest) args =
         Inr (\<lparr>TotalCount = 0, Edges = [],
               PageInfo = \<lparr>HasNextPage = False, EndCursor = [], HasPrevPage = False,
                           StartCursor = [], Pages = []\<rparr>\<rparr>, Some (ClientError msg)))
   \<and> (getConnection cursorVal c' out' args' = Inr (conn, Some err) \<longrightarrow>
        conn = \<lparr>TotalCount = 0, Edges = [],
                PageInfo = \<lparr>HasNextPage = False, EndCursor = [], HasPrevPage = False,
                            StartCursor = [], Pages = []\<rparr>\<rparr>)"
proof -
  have "\<exists>msg.
     snd (paginateManually
            \<lparr>TotalCount = int (length nodes), Edges = edges,
             PageInfo = zeroPageInfo\<lparr>Pages := getPages edges (Limit args)\<rparr>\<rparr>
            args) = Some (ClientError msg)
     \<and> getConnection cursorVal c (SliceV nodes # rest) args =
         Inr (\<lparr>TotalCount = 0, Edges = [],
               PageInfo = \<lparr>HasNextPage = False, EndCursor = [], HasPrevPage = False,
                           StartCursor = [], Pages = []\<rparr>\<rparr>, Some (ClientError msg))"
    using assms
    by (auto simp: getConnection_def castSlice_def zeroConnection_def zeroPageInfo_def
         paginateManually_def safeInt64Ptr_def Let_def split: prod.splits option.splits)
  moreover have "conn = \<lparr>TotalCount = 0, Edges = [],
                PageInfo = \<lparr>HasNextPage = False, EndCursor = [], HasPrevPage = False,
                            StartCursor = [], Pages = []\<rparr>\<rparr>"
    if "getConnection cursorVal c' out' args' = Inr (conn, Some err)"
    using that
    by (auto simp: getConnection_def zeroConnection_def zeroPageInfo_def Let_def
        split: if_splits sum.splits prod.splits option.splits Value.splits)
  ultimately show ?thesis by blast
qed

text \<open>
  The test's \<open>last: -2, before: ""\<close> on the five items: the failed \<open>paginateManually\<close>
  leaves the five edges in its receiver, \<open>getConnection\<close> returns none of them.
\<close>

theorem getConnection_client_error_atomic_witness:
  "items \<noteq> []
   \<and> getEdges itemCursor (Key managedContext) items = Inr itemEdges
   \<and> Edges (fst (paginateManually itemConnection
                  \<lparr>First = None, Last = Some (- 2), After = None, Before = Some []\<rparr>)) = itemEdges
   \<and> (\<exists>msg. getConnection itemCursor managedContext [SliceV items, ErrorV None]
               \<lparr>First = None, Last = Some (- 2), After = None, Before = Some []\<rparr> =
             Inr (zeroConnection, Some (ClientError msg)))"
proof -
  let ?args = "\<lparr>First = None, Last = Some (- 2), After = None, Before = Some []\<rparr>"
  have h1: "items \<noteq> []" by (simp add: items_def)
  have h2: "getEdges itemCursor (Key managedContext) items = Inr itemEdges"
    by (simp add: getEdges_items managedContext_def)
  have h3: "(\<exists>f. First ?args = Some f \<and> f < 0) \<or> (\<exists>l. Last ?args = Some l \<and> l < 0) \<or>
         (First ?args \<noteq> None \<and> Last ?args \<noteq> None)"
    by simp
  have e: "Edges (fst (paginateManually itemConnection ?args)) = itemEdges"
    by (simp add: paginateManually_def applyCursorsToAllEdges_def getCursorIndex_def
        safeInt64Ptr_def fixture_defs)
  from getConnection_client_error_atomic [OF h1 h2 h3, THEN conjunct1, of "[ErrorV None]"]
    h1 h2 e
  show ?thesis by (auto simp: zeroConnection_def zeroPageInfo_def)
qed

text \<open>
  The claim as stated fails on a node list that holds a nil pointer, which a resolver
  returning \<open>[]*Item\<close> can produce: with \<open>first: -1\<close> the call panics in \<open>getEdges\<close>, before
  the windowing is reached, and returns neither a connection nor the client error.
\<close>

theorem getConnection_nil_node_counterexample:
  "getConnection itemCursor managedContext [SliceV [PtrNode None], ErrorV None]
     \<lparr>First = Some (- 1), Last = None, After = None, Before = None\<rparr> =
   Inl (Panic ''reflect: call of reflect.Value.FieldByName on zero Value'')"
  by (simp add: getConnection_def castSlice_def getEdges_def)

end
